theory Spec2Isabelle
  imports Complex_Main
begin

section \<open>Values: Python floats, exceptions, table cells\<close>

text \<open>
  A Python float is a finite number, a NaN or an infinity. Finite values are taken as
  real numbers: rounding and overflow of the 64-bit format are not part of this model.
  A value handed to a helper, or held in a row, may also be \<open>None\<close> or a string.
\<close>

datatype flt = Fin real | NaN | PInf | NInf

datatype pyval = Flt flt | PyNone | Str string

datatype exn = ZeroDivisionError | TypeError | ValueError string | KeyError string

text \<open>\<open>pd.isna\<close> and \<open>np.isinf\<close> on a float.\<close>

fun isna :: "flt \<Rightarrow> bool" where
  "isna NaN = True"
| "isna _ = False"

fun isinf :: "flt \<Rightarrow> bool" where
  "isinf PInf = True"
| "isinf NInf = True"
| "isinf _ = False"

text \<open>\<open>pd.isna\<close> on an argument: true of NaN and of \<open>None\<close>.\<close>

fun pd_isna :: "pyval \<Rightarrow> bool" where
  "pd_isna PyNone = True"
| "pd_isna (Flt x) = isna x"
| "pd_isna (Str s) = False"

text \<open>The comparison \<open>denominador == 0\<close>: false of \<open>None\<close>, of NaN and of a string.\<close>

fun eq_zero :: "pyval \<Rightarrow> bool" where
  "eq_zero (Flt (Fin r)) = (r = 0)"
| "eq_zero _ = False"

text \<open>
  The quotient of two floats when the divisor is not zero (IEEE 754 on the special
  values, exact on the finite ones).
\<close>

fun fl_div :: "flt \<Rightarrow> flt \<Rightarrow> flt" where
  "fl_div NaN _ = NaN"
| "fl_div _ NaN = NaN"
| "fl_div (Fin a) (Fin b) = Fin (a / b)"
| "fl_div (Fin a) PInf = Fin 0"
| "fl_div (Fin a) NInf = Fin 0"
| "fl_div PInf (Fin b) = (if 0 < b then PInf else NInf)"
| "fl_div NInf (Fin b) = (if 0 < b then NInf else PInf)"
| "fl_div PInf PInf = NaN"
| "fl_div PInf NInf = NaN"
| "fl_div NInf PInf = NaN"
| "fl_div NInf NInf = NaN"

text \<open>
  Python's \<open>/\<close>: a zero divisor raises \<open>ZeroDivisionError\<close>, \<open>None\<close> or a
  string on either side raises \<open>TypeError\<close>.
\<close>

fun truediv :: "pyval \<Rightarrow> pyval \<Rightarrow> exn + flt" where
  "truediv (Flt a) (Flt b) = (if b = Fin 0 then Inl ZeroDivisionError else Inr (fl_div a b))"
| "truediv _ _ = Inl TypeError"

text \<open>The handler \<open>except (ZeroDivisionError, TypeError, ValueError)\<close>.\<close>

fun caught :: "exn \<Rightarrow> bool" where
  "caught ZeroDivisionError = True"
| "caught TypeError = True"
| "caught (ValueError m) = True"
| "caught (KeyError k) = False"

section \<open>Strings and tables\<close>

text \<open>
  Strings are byte strings; the case mapping and the white space are those of ASCII
  (a character outside ASCII is left as it is).
\<close>

definition lower_char :: "char \<Rightarrow> char" where
  "lower_char c =
     (case map_of (zip ''ABCDEFGHIJKLMNOPQRSTUVWXYZ'' ''abcdefghijklmnopqrstuvwxyz'') c of
        Some l \<Rightarrow> l
      | None \<Rightarrow> c)"

definition is_space :: "char \<Rightarrow> bool" where
  "is_space c \<longleftrightarrow>
     c \<in> set [CHR '' '', CHR 0x09, CHR 0x0A, CHR 0x0B, CHR 0x0C, CHR 0x0D,
              CHR 0x1C, CHR 0x1D, CHR 0x1E, CHR 0x1F]"

definition py_lower :: "string \<Rightarrow> string" where
  "py_lower s = map lower_char s"

definition py_strip :: "string \<Rightarrow> string" where
  "py_strip s = rev (dropWhile is_space (rev (dropWhile is_space s)))"

text \<open>\<open>s.replace(' ', '_')\<close>.\<close>

definition replace_spaces :: "string \<Rightarrow> string" where
  "replace_spaces s = map (\<lambda>c. if c = CHR '' '' then CHR ''_'' else c) s"

text \<open>\<open>col.lower().strip().replace(' ', '_')\<close>, the normal form of a column name.\<close>

definition normalizar_nombre :: "string \<Rightarrow> string" where
  "normalizar_nombre col = replace_spaces (py_strip (py_lower col))"

text \<open>\<open>sep.join(xs)\<close>.\<close>

fun join :: "string \<Rightarrow> string list \<Rightarrow> string" where
  "join sep [] = []"
| "join sep [x] = x"
| "join sep (x # y # ys) = x @ sep @ join sep (y # ys)"

text \<open>\<open>xs.index(x)\<close>, called only where \<open>x\<close> is in \<open>xs\<close>.\<close>

fun index_of :: "'a \<Rightarrow> 'a list \<Rightarrow> nat" where
  "index_of x [] = 0"
| "index_of x (y # ys) = (if x = y then 0 else Suc (index_of x ys))"

text \<open>
  A table is a list of column names and a list of rows. A cell is a number, a text or
  missing (NaN or \<open>None\<close>). In a column that the code converts with
  \<open>pd.to_numeric(..., errors='coerce')\<close>, a text cell stands for text that pandas does
  not read as a number: the conversion gives NaN there.
\<close>

datatype cell = Num real | Txt string | Nulo

record dataframe =
  columns :: "string list"
  filas :: "cell list list"

text \<open>
  The cell of a row under a column name (the first column of that name). The engines
  read a column only after they have checked that it is there.
\<close>

definition celda :: "string list \<Rightarrow> cell list \<Rightarrow> string \<Rightarrow> cell" where
  "celda cols row c = (let i = index_of c cols in if i < length row then row ! i else Nulo)"

fun to_numeric :: "cell \<Rightarrow> real option" where
  "to_numeric (Num r) = Some r"
| "to_numeric (Txt s) = None"
| "to_numeric Nulo = None"

text \<open>\<open>.fillna(0)\<close> on a converted cell.\<close>

fun fillna0 :: "real option \<Rightarrow> real" where
  "fillna0 None = 0"
| "fillna0 (Some r) = r"

text \<open>\<open>.str.lower().str.strip()\<close> on a cell: a cell that is not text becomes NaN.\<close>

fun str_lower_strip :: "cell \<Rightarrow> cell" where
  "str_lower_strip (Txt s) = Txt (py_strip (py_lower s))"
| "str_lower_strip _ = Nulo"

text \<open>\<open>Series.isin\<close> against a list of names.\<close>

fun isin :: "cell \<Rightarrow> string list \<Rightarrow> bool" where
  "isin (Txt s) xs = (s \<in> set xs)"
| "isin _ xs = False"

text \<open>\<open>df.columns = [col.lower().strip().replace(' ', '_') for col in df.columns]\<close>.\<close>

definition normalizar_columnas_df :: "dataframe \<Rightarrow> dataframe" where
  "normalizar_columnas_df df = df\<lparr>columns := map normalizar_nombre (columns df)\<rparr>"

text \<open>\<open>Series.sum()\<close> and \<open>Series.mean()\<close>; both skip NaN, and the mean of no value is NaN
  (\<open>None\<close> here).\<close>

definition pd_mean :: "real option list \<Rightarrow> real option" where
  "pd_mean xs =
     (let vs = map the (filter (\<lambda>x. x \<noteq> None) xs)
      in if vs = [] then None else Some (sum_list vs / real (length vs)))"

section \<open>Safe division\<close>

text \<open>
  \<open>ReactiveAnalyzer._safe_divide\<close> and \<open>SSOCalculator._safe_divide\<close> have the same
  body:
  \<^verbatim>\<open>
    try:
        if denominador == 0 or pd.isna(denominador):
            return 0.0
        resultado = numerador / denominador
        return 0.0 if pd.isna(resultado) or np.isinf(resultado) else resultado
    except (ZeroDivisionError, TypeError, ValueError):
        return 0.0
  \<close>
  An exception the handler does not name would leave the function: the result type
  keeps that branch.
\<close>

definition safe_divide :: "pyval \<Rightarrow> pyval \<Rightarrow> exn + flt" where
  "safe_divide numerador denominador =
     (if eq_zero denominador \<or> pd_isna denominador then Inr (Fin 0)
      else case truediv numerador denominador of
             Inl e \<Rightarrow> (if caught e then Inr (Fin 0) else Inl e)
           | Inr resultado \<Rightarrow>
               Inr (if isna resultado \<or> isinf resultado then Fin 0 else resultado))"

section \<open>The reactive engine\<close>

text \<open>The constants of \<open>ConstantesK\<close> and of \<open>ReactiveAnalyzer\<close>.\<close>

definition K_MENSUAL :: real where
  "K_MENSUAL = 16666.67"

definition K_TRIMESTRAL :: real where
  "K_TRIMESTRAL = 50000"

definition K_ANUAL :: real where
  "K_ANUAL = 200000"

definition HORAS_MENSUALES_STD :: real where
  "HORAS_MENSUALES_STD = 173.33"

definition MESES_ORDEN :: "string list" where
  "MESES_ORDEN =
     [''enero'', ''febrero'', ''marzo'', ''abril'', ''mayo'', ''junio'',
      ''julio'', ''agosto'', ''septiembre'', ''octubre'', ''noviembre'', ''diciembre'']"

text \<open>\<open>TRIMESTRES\<close>: number, name and months of each quarter, in the order of the dict.\<close>

definition TRIMESTRES :: "(nat \<times> string \<times> string list) list" where
  "TRIMESTRES =
     [(1, ''PRIMER TRIMESTRE'', [''enero'', ''febrero'', ''marzo'']),
      (2, ''SEGUNDO TRIMESTRE'', [''abril'', ''mayo'', ''junio'']),
      (3, ''TERCER TRIMESTRE'', [''julio'', ''agosto'', ''septiembre'']),
      (4, ''CUARTO TRIMESTRE'', [''octubre'', ''noviembre'', ''diciembre''])]"

text \<open>The name of the year row, \<open>TOTAL A\<tilde>NO\<close> with its N-tilde in UTF-8.\<close>

definition TOTAL_ANIO :: string where
  "TOTAL_ANIO = ''TOTAL A'' @ [CHR 0xC3, CHR 0x91] @ ''O''"

definition COLUMNAS_REQUERIDAS :: "string list" where
  "COLUMNAS_REQUERIDAS =
     [''mes'', ''num_trabajadores'', ''horas_hombre_mes'',
      ''acc_baja'', ''acc_sin_baja'', ''enf_ocupacionales'', ''dias_perdidos'']"

text \<open>
  \<open>_validar_columnas\<close>: every required column that is absent is collected, and a
  \<open>ValueError\<close> with the whole list is raised when there is one.
\<close>

definition faltantes :: "string list \<Rightarrow> string list \<Rightarrow> string list" where
  "faltantes requeridas cols = filter (\<lambda>col. col \<notin> set cols) requeridas"

definition validar_columnas :: "dataframe \<Rightarrow> exn + unit" where
  "validar_columnas df =
     (let falt = faltantes COLUMNAS_REQUERIDAS (columns df)
      in if falt \<noteq> []
         then Inl (ValueError (''Columnas requeridas faltantes: '' @ join '', '' falt @
                               [CHR 0x0A] @
                               ''Columnas encontradas: '' @ join '', '' (columns df)))
         else Inr ())"

text \<open>
  A row after \<open>_preparar_datos_base\<close>, and a row of the report, which has the index
  columns too. Columns of the input that the engine does not read are left out.
  \<open>num_trabajadores\<close> may be NaN (\<open>None\<close>): the year row of a table with no month
  holds the mean of no value.
\<close>

record fila_base =
  mes :: cell
  num_trabajadores :: "real option"
  horas_hombre_mes :: real
  horas_extras :: real
  acc_baja :: real
  acc_sin_baja :: real
  enf_ocupacionales :: real
  dias_perdidos :: real
  total_lesiones :: real
  total_horas :: real
  mes_orden :: nat

record fila = fila_base +
  IF :: flt
  IG :: flt
  TR :: flt
  tipo_fila :: string
  constante_k :: real

text \<open>\<open>MESES_ORDEN.index(x) if x in MESES_ORDEN else 99\<close>.\<close>

fun orden_de_mes :: "cell \<Rightarrow> nat" where
  "orden_de_mes (Txt x) = (if x \<in> set MESES_ORDEN then index_of x MESES_ORDEN else 99)"
| "orden_de_mes _ = 99"

text \<open>
  \<open>_preparar_datos_base\<close>, one row: numeric columns coerced with NaN to 0, overtime 0
  when the column is absent, the two totals, the month name and its rank.
\<close>

definition preparar_fila :: "string list \<Rightarrow> cell list \<Rightarrow> fila_base" where
  "preparar_fila cols row =
     (let num = (\<lambda>c. fillna0 (to_numeric (celda cols row c)));
          extras = (if ''horas_extras'' \<in> set cols then num ''horas_extras'' else 0);
          nombre = str_lower_strip (celda cols row ''mes'')
      in \<lparr> mes = nombre,
           num_trabajadores = Some (num ''num_trabajadores''),
           horas_hombre_mes = num ''horas_hombre_mes'',
           horas_extras = extras,
           acc_baja = num ''acc_baja'',
           acc_sin_baja = num ''acc_sin_baja'',
           enf_ocupacionales = num ''enf_ocupacionales'',
           dias_perdidos = num ''dias_perdidos'',
           total_lesiones = num ''acc_baja'' + num ''acc_sin_baja'' + num ''enf_ocupacionales'',
           total_horas =
             (if num ''horas_hombre_mes'' > 0 then num ''horas_hombre_mes''
              else num ''num_trabajadores'' * HORAS_MENSUALES_STD + extras),
           mes_orden = orden_de_mes nombre \<rparr>)"

text \<open>
  \<open>sort_values('mes_orden')\<close> is taken as a stable sort: rows of equal rank keep their
  order.
\<close>

definition preparar_datos_base :: "dataframe \<Rightarrow> fila_base list" where
  "preparar_datos_base df = sort_key mes_orden (map (preparar_fila (columns df)) (filas df))"

text \<open>
  \<open>_calcular_indices_meses\<close>, one row. The code fills the columns IF, IG and TR one
  after the other; each value depends on its own row only.
\<close>

definition indices_fila :: "fila_base \<Rightarrow> exn + fila" where
  "indices_fila r =
     (case safe_divide (Flt (Fin (total_lesiones r * K_MENSUAL))) (Flt (Fin (total_horas r))) of
        Inl e \<Rightarrow> Inl e
      | Inr vIF \<Rightarrow>
     (case safe_divide (Flt (Fin (dias_perdidos r * K_MENSUAL))) (Flt (Fin (total_horas r))) of
        Inl e \<Rightarrow> Inl e
      | Inr vIG \<Rightarrow>
     (case safe_divide (Flt (Fin (dias_perdidos r))) (Flt (Fin (total_lesiones r))) of
        Inl e \<Rightarrow> Inl e
      | Inr vTR \<Rightarrow>
          Inr (fila_base.extend r
                 (fila.fields vIF vIG vTR ''mes'' K_MENSUAL)))))"

fun calcular_indices_meses :: "fila_base list \<Rightarrow> exn + fila list" where
  "calcular_indices_meses [] = Inr []"
| "calcular_indices_meses (r # rs) =
     (case indices_fila r of
        Inl e \<Rightarrow> Inl e
      | Inr f \<Rightarrow> (case calcular_indices_meses rs of
                    Inl e \<Rightarrow> Inl e
                  | Inr fs \<Rightarrow> Inr (f # fs)))"

text \<open>\<open>_crear_fila_resumen\<close>: the row of a quarter or of the year.\<close>

definition crear_fila_resumen ::
  "fila list \<Rightarrow> string \<Rightarrow> string \<Rightarrow> real \<Rightarrow> nat \<Rightarrow> exn + fila" where
  "crear_fila_resumen df_periodo nombre tipo k orden =
     (let t_lesiones = sum_list (map total_lesiones df_periodo);
          t_horas = sum_list (map total_horas df_periodo);
          dias = sum_list (map dias_perdidos df_periodo);
          trabajadores = pd_mean (map num_trabajadores df_periodo);
          baja = sum_list (map acc_baja df_periodo);
          sin_baja = sum_list (map acc_sin_baja df_periodo);
          enf = sum_list (map enf_ocupacionales df_periodo)
      in case safe_divide (Flt (Fin (t_lesiones * k))) (Flt (Fin t_horas)) of
           Inl e \<Rightarrow> Inl e
         | Inr vIF \<Rightarrow>
        (case safe_divide (Flt (Fin (dias * k))) (Flt (Fin t_horas)) of
           Inl e \<Rightarrow> Inl e
         | Inr vIG \<Rightarrow>
        (case safe_divide (Flt (Fin dias)) (Flt (Fin t_lesiones)) of
           Inl e \<Rightarrow> Inl e
         | Inr vTR \<Rightarrow>
             Inr \<lparr> mes = Txt nombre,
                   num_trabajadores = trabajadores,
                   horas_hombre_mes = t_horas,
                   horas_extras = sum_list (map horas_extras df_periodo),
                   acc_baja = baja,
                   acc_sin_baja = sin_baja,
                   enf_ocupacionales = enf,
                   dias_perdidos = dias,
                   total_lesiones = t_lesiones,
                   total_horas = t_horas,
                   mes_orden = orden,
                   IF = vIF, IG = vIG, TR = vTR,
                   tipo_fila = tipo,
                   constante_k = k \<rparr>)))"

text \<open>
  The loop of \<open>_insertar_res\<acute>umenes\<close> over the quarters: the month rows of the
  quarter, then its summary row when the quarter has a month.
\<close>

fun filas_trimestres ::
  "(nat \<times> string \<times> string list) list \<Rightarrow> fila list \<Rightarrow> fila list \<Rightarrow> exn + fila list" where
  "filas_trimestres [] df_meses filas_resultado = Inr filas_resultado"
| "filas_trimestres ((trimestre_num, nombre_trim, meses_trim) # ts) df_meses filas_resultado =
     (let df_trim = filter (\<lambda>r. isin (mes r) meses_trim) df_meses
      in if length df_trim > 0
         then (case crear_fila_resumen df_trim nombre_trim ''trimestre'' K_TRIMESTRAL
                      (trimestre_num * 3) of
                 Inl e \<Rightarrow> Inl e
               | Inr fila_trim \<Rightarrow>
                   filas_trimestres ts df_meses (filas_resultado @ df_trim @ [fila_trim]))
         else filas_trimestres ts df_meses (filas_resultado @ df_trim))"

definition insertar_resumenes :: "fila list \<Rightarrow> exn + fila list" where
  "insertar_resumenes df_meses =
     (case filas_trimestres TRIMESTRES df_meses [] of
        Inl e \<Rightarrow> Inl e
      | Inr filas_resultado \<Rightarrow>
     (case crear_fila_resumen df_meses TOTAL_ANIO ''anual'' K_ANUAL 99 of
        Inl e \<Rightarrow> Inl e
      | Inr fila_anual \<Rightarrow> Inr (sort_key mes_orden (filas_resultado @ [fila_anual]))))"

text \<open>
  The analyzer keeps the last tables; \<open>procesar\<close> stores them when it returns and
  leaves the analyzer as it was when it raises.
\<close>

record analyzer =
  df_reporte :: "fila list option"
  df_charts :: "fila list option"

definition procesar :: "analyzer \<Rightarrow> dataframe \<Rightarrow> (exn + fila list \<times> fila list) \<times> analyzer" where
  "procesar self df0 =
     (let df = normalizar_columnas_df df0
      in case validar_columnas df of
           Inl e \<Rightarrow> (Inl e, self)
         | Inr u \<Rightarrow>
        (case calcular_indices_meses (preparar_datos_base df) of
           Inl e \<Rightarrow> (Inl e, self)
         | Inr df_meses \<Rightarrow>
        (case insertar_resumenes df_meses of
           Inl e \<Rightarrow> (Inl e, self)
         | Inr reporte \<Rightarrow>
             (let charts = filter (\<lambda>r. tipo_fila r = ''mes'') reporte
              in (Inr (reporte, charts),
                  self\<lparr>df_reporte := Some reporte, df_charts := Some charts\<rparr>)))))"

section \<open>The proactive engine\<close>

text \<open>Product, sum and comparisons of floats (IEEE 754 on the special values).\<close>

fun fl_sgn :: "flt \<Rightarrow> int" where
  "fl_sgn (Fin a) = (if a > 0 then 1 else if a < 0 then - 1 else 0)"
| "fl_sgn PInf = 1"
| "fl_sgn NInf = - 1"
| "fl_sgn NaN = 0"

fun fl_mul :: "flt \<Rightarrow> flt \<Rightarrow> flt" where
  "fl_mul (Fin a) (Fin b) = Fin (a * b)"
| "fl_mul x y =
     (if isna x \<or> isna y \<or> fl_sgn x * fl_sgn y = 0 then NaN
      else if fl_sgn x * fl_sgn y > 0 then PInf else NInf)"

fun fl_add :: "flt \<Rightarrow> flt \<Rightarrow> flt" where
  "fl_add (Fin a) (Fin b) = Fin (a + b)"
| "fl_add NaN _ = NaN"
| "fl_add _ NaN = NaN"
| "fl_add PInf NInf = NaN"
| "fl_add NInf PInf = NaN"
| "fl_add PInf _ = PInf"
| "fl_add _ PInf = PInf"
| "fl_add NInf _ = NInf"
| "fl_add _ NInf = NInf"

fun fl_lt :: "flt \<Rightarrow> flt \<Rightarrow> bool" where
  "fl_lt (Fin a) (Fin b) = (a < b)"
| "fl_lt NaN _ = False"
| "fl_lt _ NaN = False"
| "fl_lt _ NInf = False"
| "fl_lt PInf _ = False"
| "fl_lt NInf _ = True"
| "fl_lt _ PInf = True"

text \<open>Python's \<open>min(x, y)\<close>: \<open>y\<close> when \<open>y < x\<close>, else \<open>x\<close>.\<close>

definition fl_min :: "flt \<Rightarrow> flt \<Rightarrow> flt" where
  "fl_min x y = (if fl_lt y x then y else x)"

text \<open>\<open>x >= meta\<close> for a float \<open>x\<close> and a finite \<open>meta\<close>.\<close>

fun fl_ge :: "flt \<Rightarrow> real \<Rightarrow> bool" where
  "fl_ge (Fin a) m = (a \<ge> m)"
| "fl_ge PInf m = True"
| "fl_ge _ m = False"

text \<open>
  A row of the proactive table is a \<open>pandas.Series\<close>: column names with their values,
  in the order of the columns. \<open>row.get(k, d)\<close> reads it; assigning a column replaces
  its value or appends the column.
\<close>

type_synonym serie = "(string \<times> pyval) list"

definition row_get :: "serie \<Rightarrow> string \<Rightarrow> pyval \<Rightarrow> pyval" where
  "row_get row k d = (case map_of row k of Some v \<Rightarrow> v | None \<Rightarrow> d)"

fun asignar :: "string \<Rightarrow> pyval \<Rightarrow> serie \<Rightarrow> serie" where
  "asignar k v [] = [(k, v)]"
| "asignar k v ((k', v') # row) =
     (if k = k' then (k, v) # row else (k', v') # asignar k v row)"

text \<open>\<open>IndicadorConfig\<close> (the display name and the description are left out).\<close>

record IndicadorConfig =
  codigo :: string
  col_numerador :: string
  col_denominador :: string
  peso :: nat

definition INDICADORES :: "IndicadorConfig list" where
  "INDICADORES =
     [\<lparr>codigo = ''IART'', col_numerador = ''nart_ejec'', col_denominador = ''nart_prog'', peso = 5\<rparr>,
      \<lparr>codigo = ''OPAS'', col_numerador = ''opas_efectivo'', col_denominador = ''opas_programado'', peso = 3\<rparr>,
      \<lparr>codigo = ''IDPS'', col_numerador = ''dps_efectivo'', col_denominador = ''dps_programado'', peso = 2\<rparr>,
      \<lparr>codigo = ''IDS'', col_numerador = ''ds_eliminadas'', col_denominador = ''ds_detectadas'', peso = 3\<rparr>,
      \<lparr>codigo = ''IENTS'', col_numerador = ''ent_entrenados'', col_denominador = ''ent_programados'', peso = 1\<rparr>,
      \<lparr>codigo = ''IOSEA'', col_numerador = ''osea_cumplidos'', col_denominador = ''osea_aplicables'', peso = 4\<rparr>,
      \<lparr>codigo = ''ICAI'', col_numerador = ''cai_implement'', col_denominador = ''cai_propuestas'', peso = 4\<rparr>,
      \<lparr>codigo = ''IEF'', col_numerador = ''ef_auditados'', col_denominador = ''ef_totales'', peso = 0\<rparr>]"


definition COLUMNAS_REQUERIDAS_PRO :: "string list" where
  "COLUMNAS_REQUERIDAS_PRO =
     [''mes'', ''nart_prog'', ''nart_ejec'',
      ''opas_prog'', ''opas_real'', ''opas_personas_prev'', ''opas_personas_conf'',
      ''dps_plan'', ''dps_real'', ''dps_previstos'', ''dps_asistentes'',
      ''ds_detectadas'', ''ds_eliminadas'', ''ent_programados'', ''ent_entrenados'',
      ''osea_aplicables'', ''osea_cumplidos'', ''cai_propuestas'', ''cai_implement'',
      ''ef_totales'', ''ef_auditados'']"

text \<open>\<open>ProactiveCalculator._validar_columnas\<close>.\<close>

definition validar_columnas_pro :: "dataframe \<Rightarrow> exn + unit" where
  "validar_columnas_pro df =
     (let falt = faltantes COLUMNAS_REQUERIDAS_PRO (columns df)
      in if falt \<noteq> []
         then Inl (ValueError (''Columnas requeridas faltantes: '' @ join '', '' falt))
         else Inr ())"

text \<open>
  \<open>_preparar_datos\<close>: every column but \<open>mes\<close> coerced to a number with NaN to 0, the
  month name normalised, its rank stored in \<open>mes_orden\<close>, the rows sorted by rank
  (\<open>MESES_ORDEN\<close> is the list of the reactive engine).
\<close>

fun mes_normalizado :: "cell \<Rightarrow> pyval" where
  "mes_normalizado (Txt s) = Str (py_strip (py_lower s))"
| "mes_normalizado _ = Flt NaN"

fun orden_de_valor :: "pyval \<Rightarrow> nat" where
  "orden_de_valor (Str x) = (if x \<in> set MESES_ORDEN then index_of x MESES_ORDEN else 99)"
| "orden_de_valor _ = 99"

definition preparar_fila_pro :: "string list \<Rightarrow> cell list \<Rightarrow> serie" where
  "preparar_fila_pro cols row =
     (let convertida =
            map (\<lambda>c. (c, if c = ''mes'' then mes_normalizado (celda cols row c)
                          else Flt (Fin (fillna0 (to_numeric (celda cols row c)))))) cols
      in asignar ''mes_orden''
           (Flt (Fin (real (orden_de_valor (row_get convertida ''mes'' PyNone))))) convertida)"

definition preparar_datos :: "dataframe \<Rightarrow> serie list" where
  "preparar_datos df =
     sort_key (\<lambda>r. orden_de_valor (row_get r ''mes'' PyNone))
       (map (preparar_fila_pro (columns df)) (filas df))"

text \<open>The product of two columns, row by row.\<close>

fun col_mul :: "pyval \<Rightarrow> pyval \<Rightarrow> pyval" where
  "col_mul (Flt a) (Flt b) = Flt (fl_mul a b)"
| "col_mul _ _ = Flt NaN"

definition calcular_columnas_compuestas :: "serie \<Rightarrow> serie" where
  "calcular_columnas_compuestas r =
     (let r1 = asignar ''opas_efectivo''
                 (col_mul (row_get r ''opas_real'' PyNone) (row_get r ''opas_personas_conf'' PyNone)) r;
          r2 = asignar ''opas_programado''
                 (col_mul (row_get r1 ''opas_prog'' PyNone) (row_get r1 ''opas_personas_prev'' PyNone)) r1;
          r3 = asignar ''dps_efectivo''
                 (col_mul (row_get r2 ''dps_real'' PyNone) (row_get r2 ''dps_asistentes'' PyNone)) r2
      in asignar ''dps_programado''
           (col_mul (row_get r3 ''dps_plan'' PyNone) (row_get r3 ''dps_previstos'' PyNone)) r3)"

text \<open>
  \<open>_calcular_indicador\<close>:
  \<^verbatim>\<open>
    try:
        if denominador == 0 or pd.isna(denominador):
            return 0.0
        resultado = (numerador / denominador) * 100
        return 0.0 if pd.isna(resultado) or np.isinf(resultado) else min(resultado, 100.0)
    except (ZeroDivisionError, TypeError, ValueError):
        return 0.0
  \<close>
\<close>

definition calcular_indicador :: "pyval \<Rightarrow> pyval \<Rightarrow> exn + flt" where
  "calcular_indicador numerador denominador =
     (if eq_zero denominador \<or> pd_isna denominador then Inr (Fin 0)
      else case truediv numerador denominador of
             Inl e \<Rightarrow> (if caught e then Inr (Fin 0) else Inl e)
           | Inr cociente \<Rightarrow>
               (let resultado = fl_mul cociente (Fin 100)
                in Inr (if isna resultado \<or> isinf resultado then Fin 0
                        else fl_min resultado (Fin 100))))"

text \<open>The loop of \<open>procesar\<close> over \<open>INDICADORES\<close>, on one row.\<close>

fun calcular_indicadores :: "IndicadorConfig list \<Rightarrow> serie \<Rightarrow> exn + serie" where
  "calcular_indicadores [] r = Inr r"
| "calcular_indicadores (config # cs) r =
     (case calcular_indicador (row_get r (col_numerador config) (Flt (Fin 0)))
                              (row_get r (col_denominador config) (Flt (Fin 0))) of
        Inl e \<Rightarrow> Inl e
      | Inr v \<Rightarrow> calcular_indicadores cs (asignar (codigo config) (Flt v) r))"

text \<open>
  \<open>_calcular_ig_total\<close>. The loop adds \<open>peso * row.get(codigo, 0)\<close> for the indicators
  of positive weight; a value that is not a number makes the sum raise \<open>TypeError\<close>,
  which the handler \<open>except (TypeError, ValueError)\<close> turns into 0.0.
\<close>

fun suma_ponderada :: "IndicadorConfig list \<Rightarrow> serie \<Rightarrow> flt \<times> nat \<Rightarrow> exn + flt \<times> nat" where
  "suma_ponderada [] row acc = Inr acc"
| "suma_ponderada (config # cs) row (suma, pesos) =
     (if peso config > 0
      then (case row_get row (codigo config) (Flt (Fin 0)) of
              Flt x \<Rightarrow>
                suma_ponderada cs row
                  (fl_add suma (fl_mul (Fin (real (peso config))) x), pesos + peso config)
            | PyNone \<Rightarrow> Inl TypeError
            | Str s \<Rightarrow> Inl TypeError)
      else suma_ponderada cs row (suma, pesos))"

fun caught_ig :: "exn \<Rightarrow> bool" where
  "caught_ig TypeError = True"
| "caught_ig (ValueError m) = True"
| "caught_ig _ = False"

definition calcular_ig_total :: "serie \<Rightarrow> exn + flt" where
  "calcular_ig_total row =
     (case (case suma_ponderada INDICADORES row (Fin 0, 0) of
              Inl e \<Rightarrow> Inl e
            | Inr (suma, suma_pesos) \<Rightarrow>
                if suma_pesos = 0 then Inr (Fin 0)
                else truediv (Flt suma) (Flt (Fin (real suma_pesos)))) of
        Inl e \<Rightarrow> (if caught_ig e then Inr (Fin 0) else Inl e)
      | Inr v \<Rightarrow> Inr v)"

text \<open>
  \<open>SSOCalculator.calcular_ig_total\<close>, with \<open>PESOS\<close> and \<open>SUMA_PESOS = sum(PESOS.values())\<close>.
\<close>

definition PESOS :: "(string \<times> nat) list" where
  "PESOS = [(''IART'', 5), (''OPAS'', 3), (''IDPS'', 2), (''IDS'', 3), (''IENTS'', 1),
            (''IOSEA'', 4), (''ICAI'', 4)]"

definition SUMA_PESOS :: nat where
  "SUMA_PESOS = sum_list (map snd PESOS)"

definition peso_de :: "string \<Rightarrow> flt" where
  "peso_de k = Fin (real (case map_of PESOS k of Some p \<Rightarrow> p | None \<Rightarrow> 0))"

definition sso_calcular_ig_total ::
  "flt \<Rightarrow> flt \<Rightarrow> flt \<Rightarrow> flt \<Rightarrow> flt \<Rightarrow> flt \<Rightarrow> flt \<Rightarrow> exn + flt" where
  "sso_calcular_ig_total iart opas idps ids ients iosea icai =
     (let ponderado =
            fl_add (fl_add (fl_add (fl_add (fl_add (fl_add
              (fl_mul (peso_de ''IART'') iart)
              (fl_mul (peso_de ''OPAS'') opas))
              (fl_mul (peso_de ''IDPS'') idps))
              (fl_mul (peso_de ''IDS'') ids))
              (fl_mul (peso_de ''IENTS'') ients))
              (fl_mul (peso_de ''IOSEA'') iosea))
              (fl_mul (peso_de ''ICAI'') icai)
      in case truediv (Flt ponderado) (Flt (Fin (real SUMA_PESOS))) of
           Inl e \<Rightarrow> (if caught_ig e then Inr (Fin 0) else Inl e)
         | Inr v \<Rightarrow> Inr v)"

text \<open>One row through the steps of \<open>ProactiveCalculator.procesar\<close> after the sort.\<close>

definition fila_completa :: "real \<Rightarrow> serie \<Rightarrow> exn + serie" where
  "fila_completa meta_val r =
     (case calcular_indicadores INDICADORES (calcular_columnas_compuestas r) of
        Inl e \<Rightarrow> Inl e
      | Inr r1 \<Rightarrow>
     (case calcular_ig_total r1 of
        Inl e \<Rightarrow> Inl e
      | Inr ig \<Rightarrow>
          Inr (asignar ''Estado'' (Str (if fl_ge ig meta_val then ''CUMPLE'' else ''NO CUMPLE''))
                (asignar ''Meta'' (Flt (Fin meta_val))
                  (asignar ''IG_TOTAL'' (Flt ig) r1)))))"

fun filas_completas :: "real \<Rightarrow> serie list \<Rightarrow> exn + serie list" where
  "filas_completas m [] = Inr []"
| "filas_completas m (r # rs) =
     (case fila_completa m r of
        Inl e \<Rightarrow> Inl e
      | Inr f \<Rightarrow> (case filas_completas m rs of
                    Inl e \<Rightarrow> Inl e
                  | Inr fs \<Rightarrow> Inr (f # fs)))"

text \<open>The calculator: its target (\<open>meta or META_DEFAULT\<close>) and the last result.\<close>

record calculator =
  meta :: real
  df_resultado :: "serie list option"


definition procesar_pro :: "calculator \<Rightarrow> dataframe \<Rightarrow> (exn + serie list) \<times> calculator" where
  "procesar_pro self df0 =
     (let df = normalizar_columnas_df df0
      in case validar_columnas_pro df of
           Inl e \<Rightarrow> (Inl e, self)
         | Inr u \<Rightarrow>
        (case filas_completas (meta self) (preparar_datos df) of
           Inl e \<Rightarrow> (Inl e, self)
         | Inr resultado \<Rightarrow> (Inr resultado, self\<lparr>df_resultado := Some resultado\<rparr>)))"

section \<open>The validator\<close>

datatype TipoAnalisis = REACTIVO | PROACTIVO | AMBOS

fun tipo_value :: "TipoAnalisis \<Rightarrow> string" where
  "tipo_value REACTIVO = ''reactivo''"
| "tipo_value PROACTIVO = ''proactivo''"
| "tipo_value AMBOS = ''ambos''"

text \<open>
  \<open>ValidationError\<close> and \<open>ValidationResult\<close>. The field \<open>fila\<close> of the source is
  \<open>fila_num\<close> here. A value of the summary is an integer, a float or a string.
\<close>

record ValidationError =
  columna :: string
  mensaje :: string
  tipo :: string
  fila_num :: "nat option"

datatype valor_resumen = VInt nat | VReal real | VStr string

record ValidationResult =
  es_valido :: bool
  errores :: "ValidationError list"
  warnings :: "ValidationError list"
  df_limpio :: "dataframe option"
  resumen :: "(string \<times> valor_resumen) list"

definition agregar_error ::
  "ValidationResult \<Rightarrow> string \<Rightarrow> string \<Rightarrow> nat option \<Rightarrow> ValidationResult" where
  "agregar_error res col msg f =
     res\<lparr>errores := errores res @ [\<lparr>columna = col, mensaje = msg, tipo = ''error'', fila_num = f\<rparr>],
         es_valido := False\<rparr>"

definition agregar_warning ::
  "ValidationResult \<Rightarrow> string \<Rightarrow> string \<Rightarrow> nat option \<Rightarrow> ValidationResult" where
  "agregar_warning res col msg f =
     res\<lparr>warnings := warnings res @
            [\<lparr>columna = col, mensaje = msg, tipo = ''warning'', fila_num = f\<rparr>]\<rparr>"

definition COLUMNAS_REACTIVO :: "(string \<times> string) list" where
  "COLUMNAS_REACTIVO =
     [(''mes'', ''Mes (texto o n'' @ [CHR 0xC3, CHR 0xBA] @ ''mero)''),
      (''horas_trabajadas'', ''Horas Hombre Trabajadas''),
      (''num_lesiones'', ''N'' @ [CHR 0xC3, CHR 0xBA] @ ''mero de Lesiones/Accidentes''),
      (''dias_perdidos'', ''D'' @ [CHR 0xC3, CHR 0xAD] @ ''as Perdidos por Incapacidad'')]"

definition ALIAS_REACTIVO :: "(string \<times> string list) list" where
  "ALIAS_REACTIVO =
     [(''mes'', [''mes'', ''month'', ''periodo'', ''fecha'', ''meses'']),
      (''horas_trabajadas'', [''horas_trabajadas'', ''horas'', ''horas_hombre'', ''hh'', ''horas trabajadas'', ''total_horas'', ''h/h'']),
      (''num_lesiones'', [''num_lesiones'', ''lesiones'', ''accidentes'', ''num_accidentes'', ''numero_lesiones'', ''n'' @ [CHR 0xC3, CHR 0xBA] @ ''mero de lesiones'', ''n_lesiones'']),
      (''dias_perdidos'', [''dias_perdidos'', ''dias'', ''d'' @ [CHR 0xC3, CHR 0xAD] @ ''as perdidos'', ''d'' @ [CHR 0xC3, CHR 0xAD] @ ''as_perdidos'', ''dias_incapacidad'', ''jornadas_perdidas'', ''d_perdidos''])]"

definition ALIAS_PROACTIVO :: "(string \<times> string list) list" where
  "ALIAS_PROACTIVO =
     [(''mes'', [''mes'', ''month'', ''periodo'', ''fecha'', ''meses'']),
      (''iart_real'', [''iart_real'', ''iart real'', ''art_real'', ''iart_r'']),
      (''iart_programado'', [''iart_programado'', ''iart programado'', ''art_prog'', ''iart_p'']),
      (''opas_real'', [''opas_real'', ''opas real'', ''opas_r'']),
      (''opas_programado'', [''opas_programado'', ''opas programado'', ''opas_p'']),
      (''idps_real'', [''idps_real'', ''idps real'', ''dps_real'', ''idps_r'']),
      (''idps_programado'', [''idps_programado'', ''idps programado'', ''dps_prog'', ''idps_p'']),
      (''ids_real'', [''ids_real'', ''ids real'', ''ds_real'', ''ids_r'']),
      (''ids_programado'', [''ids_programado'', ''ids programado'', ''ds_prog'', ''ids_p'']),
      (''ients_real'', [''ients_real'', ''ients real'', ''ents_real'', ''ients_r'']),
      (''ients_programado'', [''ients_programado'', ''ients programado'', ''ents_prog'', ''ients_p'']),
      (''iosea_real'', [''iosea_real'', ''iosea real'', ''osea_real'', ''iosea_r'']),
      (''iosea_programado'', [''iosea_programado'', ''iosea programado'', ''osea_prog'', ''iosea_p'']),
      (''icai_real'', [''icai_real'', ''icai real'', ''cai_real'', ''icai_r'']),
      (''icai_programado'', [''icai_programado'', ''icai programado'', ''cai_prog'', ''icai_p''])]"

text \<open>A dict as a list of items in insertion order: \<open>d[k] = v\<close> and \<open>d.update(e)\<close>.\<close>

fun dict_set :: "'k \<Rightarrow> 'v \<Rightarrow> ('k \<times> 'v) list \<Rightarrow> ('k \<times> 'v) list" where
  "dict_set k v [] = [(k, v)]"
| "dict_set k v ((k', v') # d) = (if k = k' then (k, v) # d else (k', v') # dict_set k v d)"

definition dict_update :: "('k \<times> 'v) list \<Rightarrow> ('k \<times> 'v) list \<Rightarrow> ('k \<times> 'v) list" where
  "dict_update d e = fold (\<lambda>(k, v) acc. dict_set k v acc) e d"

text \<open>\<open>str(n)\<close> for a count, and \<open>s.upper()\<close> on ASCII.\<close>

function str_nat :: "nat \<Rightarrow> string" where
  "str_nat n =
     (if n < 10 then [char_of (48 + n)] else str_nat (n div 10) @ [char_of (48 + n mod 10)])"
  by pat_completeness auto
termination
  by (relation "measure id") auto

declare str_nat.simps [simp del]

definition upper_char :: "char \<Rightarrow> char" where
  "upper_char c =
     (case map_of (zip ''abcdefghijklmnopqrstuvwxyz'' ''ABCDEFGHIJKLMNOPQRSTUVWXYZ'') c of
        Some u \<Rightarrow> u
      | None \<Rightarrow> c)"

definition py_upper :: "string \<Rightarrow> string" where
  "py_upper s = map upper_char s"

text \<open>
  \<open>_normalizar_columnas\<close>: the names in normal form, then each canonical name that is
  absent takes the place of its first alias that is present.
\<close>

definition alias_map_de :: "TipoAnalisis \<Rightarrow> (string \<times> string list) list" where
  "alias_map_de t =
     (let m1 = (if t = REACTIVO \<or> t = AMBOS then dict_update [] ALIAS_REACTIVO else [])
      in if t = PROACTIVO \<or> t = AMBOS then dict_update m1 ALIAS_PROACTIVO else m1)"

definition rename_map_de :: "string list \<Rightarrow> (string \<times> string list) list \<Rightarrow> (string \<times> string) list" where
  "rename_map_de cols alias_map =
     fold (\<lambda>(col_std, aliases) rename_map.
             case find (\<lambda>alias. normalizar_nombre alias \<in> set cols \<and> col_std \<notin> set cols) aliases of
               Some alias \<Rightarrow> dict_set (normalizar_nombre alias) col_std rename_map
             | None \<Rightarrow> rename_map)
          alias_map []"

definition normalizar_columnas :: "TipoAnalisis \<Rightarrow> dataframe \<Rightarrow> dataframe" where
  "normalizar_columnas t df =
     (let cols = map normalizar_nombre (columns df);
          rename_map = rename_map_de cols (alias_map_de t)
      in df\<lparr>columns := map (\<lambda>c. case map_of rename_map c of Some n \<Rightarrow> n | None \<Rightarrow> c) cols\<rparr>)"

text \<open>Reading and replacing a column of a table.\<close>

definition columna_de :: "dataframe \<Rightarrow> string \<Rightarrow> cell list" where
  "columna_de df c = map (\<lambda>row. celda (columns df) row c) (filas df)"

definition asignar_columna :: "dataframe \<Rightarrow> string \<Rightarrow> (cell \<Rightarrow> cell) \<Rightarrow> dataframe" where
  "asignar_columna df c f =
     df\<lparr>filas := map (\<lambda>row. let i = index_of c (columns df)
                            in if i < length row then row[i := f (row ! i)] else row) (filas df)\<rparr>"

text \<open>\<open>pd.to_numeric(..., errors='coerce')\<close> on a cell, alone and followed by \<open>.fillna(0)\<close>.\<close>

fun coerce :: "cell \<Rightarrow> cell" where
  "coerce (Num r) = Num r"
| "coerce _ = Nulo"

fun coerce0 :: "cell \<Rightarrow> cell" where
  "coerce0 (Num r) = Num r"
| "coerce0 _ = Num 0"

definition pd_sum :: "cell list \<Rightarrow> real" where
  "pd_sum cs = sum_list (map (\<lambda>c. case c of Num r \<Rightarrow> r | _ \<Rightarrow> 0) cs)"

definition COLS_NUMERICAS :: "string list" where
  "COLS_NUMERICAS = [''horas_trabajadas'', ''num_lesiones'', ''dias_perdidos'']"

text \<open>\<open>_validar_reactivo\<close>: the three loops are the three step functions.\<close>

definition paso_numerico :: "string \<Rightarrow> dataframe \<times> ValidationResult \<Rightarrow> dataframe \<times> ValidationResult" where
  "paso_numerico col s =
     (case s of (df, resultado) \<Rightarrow>
        (let df' = asignar_columna df col coerce;
             nulos = length (filter (\<lambda>c. c = Nulo) (columna_de df' col))
         in (df', if nulos > 0
                  then agregar_warning resultado col
                         (str_nat nulos @ '' valores no num'' @ [CHR 0xC3, CHR 0xA9] @ ''ricos convertidos a NaN'') None
                  else resultado)))"

definition paso_negativos :: "dataframe \<Rightarrow> string \<Rightarrow> ValidationResult \<Rightarrow> ValidationResult" where
  "paso_negativos df col resultado =
     (let negativos = length (filter (\<lambda>c. case c of Num r \<Rightarrow> r < 0 | _ \<Rightarrow> False) (columna_de df col))
      in if negativos > 0
         then agregar_error resultado col (str_nat negativos @ '' valores negativos encontrados'') None
         else resultado)"

definition validar_reactivo :: "dataframe \<Rightarrow> ValidationResult \<Rightarrow> dataframe \<times> ValidationResult" where
  "validar_reactivo df resultado =
     (let columnas_faltantes =
            map (\<lambda>(col_std, desc). col_std @ '' ('' @ desc @ '')'')
              (filter (\<lambda>(col_std, desc). col_std \<notin> set (columns df)) COLUMNAS_REACTIVO)
      in if columnas_faltantes \<noteq> []
         then (df, agregar_error resultado ''columnas''
                     (''Columnas faltantes para an'' @ [CHR 0xC3, CHR 0xA1] @ ''lisis REACTIVO: '' @ join '', '' columnas_faltantes) None)
         else (case fold paso_numerico COLS_NUMERICAS (df, resultado) of (df1, r1) \<Rightarrow>
                 (let r2 = fold (paso_negativos df1) COLS_NUMERICAS r1;
                      ceros_horas = length (filter (\<lambda>c. c = Num 0) (columna_de df1 ''horas_trabajadas''))
                  in (df1, if ceros_horas > 0
                           then agregar_warning r2 ''horas_trabajadas''
                                  (str_nat ceros_horas @ '' meses con 0 horas trabajadas'') None
                           else r2))))"

text \<open>\<open>_validar_proactivo\<close>.\<close>

definition paso_par :: "string \<Rightarrow> dataframe \<times> ValidationResult \<Rightarrow> dataframe \<times> ValidationResult" where
  "paso_par ind s =
     (case s of (df, resultado) \<Rightarrow>
        (let col_real = ind @ ''_real'';
             col_prog = ind @ ''_programado'';
             r1 = (if col_real \<in> set (columns df) \<and> col_prog \<notin> set (columns df)
                   then agregar_warning resultado col_prog
                          (''Falta columna programada para '' @ py_upper ind) None
                   else if col_prog \<in> set (columns df) \<and> col_real \<notin> set (columns df)
                   then agregar_warning resultado col_real
                          (''Falta columna real para '' @ py_upper ind) None
                   else resultado);
             df1 = fold (\<lambda>col d. if col \<in> set (columns d) then asignar_columna d col coerce0 else d)
                     [col_real, col_prog] df
         in (df1, r1)))"

definition validar_proactivo :: "dataframe \<Rightarrow> ValidationResult \<Rightarrow> dataframe \<times> ValidationResult" where
  "validar_proactivo df resultado =
     (let columnas_faltantes =
            filter (\<lambda>col. col \<notin> set (columns df)) [''mes'', ''iart_real'', ''iart_programado'']
      in if columnas_faltantes \<noteq> []
         then (df, agregar_error resultado ''columnas''
                     (''Columnas m'' @ [CHR 0xC3, CHR 0xAD] @ ''nimas faltantes para an'' @ [CHR 0xC3, CHR 0xA1] @ ''lisis PROACTIVO: '' @ join '', '' columnas_faltantes) None)
         else fold paso_par [''iart'', ''opas'', ''idps'', ''ids'', ''ients'', ''iosea'', ''icai'']
                (df, resultado))"

text \<open>\<open>_generar_resumen\<close>.\<close>

definition generar_resumen :: "TipoAnalisis \<Rightarrow> dataframe \<Rightarrow> (string \<times> valor_resumen) list" where
  "generar_resumen t df =
     [(''total_registros'', VInt (length (filas df))), (''tipo_analisis'', VStr (tipo_value t))] @
     (if t = REACTIVO \<or> t = AMBOS
      then (if ''horas_trabajadas'' \<in> set (columns df)
            then [(''total_horas'', VReal (pd_sum (columna_de df ''horas_trabajadas'')))] else []) @
           (if ''num_lesiones'' \<in> set (columns df)
            then [(''total_lesiones'', VReal (pd_sum (columna_de df ''num_lesiones'')))] else []) @
           (if ''dias_perdidos'' \<in> set (columns df)
            then [(''total_dias_perdidos'', VReal (pd_sum (columna_de df ''dias_perdidos'')))] else [])
      else [])"

text \<open>
  \<open>validar\<close>. The table may be \<open>None\<close>; \<open>df.empty\<close> holds of a table with no row or no
  column.
\<close>

definition validar :: "TipoAnalisis \<Rightarrow> dataframe option \<Rightarrow> ValidationResult" where
  "validar t df_opt =
     (let resultado = \<lparr>es_valido = True, errores = [], warnings = [], df_limpio = None,
                       resumen = []\<rparr>
      in case df_opt of
           None \<Rightarrow> agregar_error resultado ''general'' (''El DataFrame est'' @ [CHR 0xC3, CHR 0xA1] @ '' vac'' @ [CHR 0xC3, CHR 0xAD] @ ''o o es nulo'') None
         | Some df \<Rightarrow>
             if filas df = [] \<or> columns df = []
             then agregar_error resultado ''general'' (''El DataFrame est'' @ [CHR 0xC3, CHR 0xA1] @ '' vac'' @ [CHR 0xC3, CHR 0xAD] @ ''o o es nulo'') None
             else (let df_normalizado = normalizar_columnas t df
                   in case (case t of
                              REACTIVO \<Rightarrow> validar_reactivo df_normalizado resultado
                            | PROACTIVO \<Rightarrow> validar_proactivo df_normalizado resultado
                            | AMBOS \<Rightarrow>
                                (case validar_reactivo df_normalizado resultado of (d, r) \<Rightarrow>
                                   if es_valido r then validar_proactivo d r else (d, r))) of
                        (df1, r1) \<Rightarrow>
                          if es_valido r1
                          then r1\<lparr>df_limpio := Some df1, resumen := generar_resumen t df1\<rparr>
                          else r1))"

text \<open>A table with no row, and a table of one row, both without \<open>dias_perdidos\<close>.\<close>

definition df_vacio :: dataframe where
  "df_vacio = \<lparr>columns = [''mes'', ''horas_trabajadas'', ''num_lesiones''], filas = []\<rparr>"


section \<open>Closed forms and the rollup specification\<close>

text \<open>The month row in closed form: what \<open>indices_fila\<close> returns.\<close>

definition fila_mes :: "fila_base \<Rightarrow> fila" where
  "fila_mes r =
     fila_base.extend r
       (fila.fields
          (Fin (if total_horas r = 0 then 0 else total_lesiones r * K_MENSUAL / total_horas r))
          (Fin (if total_horas r = 0 then 0 else dias_perdidos r * K_MENSUAL / total_horas r))
          (Fin (if total_lesiones r = 0 then 0 else dias_perdidos r / total_lesiones r))
          ''mes'' K_MENSUAL)"

text \<open>The summary row in closed form: what \<open>crear_fila_resumen\<close> returns.\<close>

definition resumen_cerrado :: "fila list \<Rightarrow> string \<Rightarrow> string \<Rightarrow> real \<Rightarrow> nat \<Rightarrow> fila" where
  "resumen_cerrado ms nombre tp k orden =
     \<lparr> mes = Txt nombre,
       num_trabajadores = pd_mean (map num_trabajadores ms),
       horas_hombre_mes = sum_list (map total_horas ms),
       horas_extras = sum_list (map horas_extras ms),
       acc_baja = sum_list (map acc_baja ms),
       acc_sin_baja = sum_list (map acc_sin_baja ms),
       enf_ocupacionales = sum_list (map enf_ocupacionales ms),
       dias_perdidos = sum_list (map dias_perdidos ms),
       total_lesiones = sum_list (map total_lesiones ms),
       total_horas = sum_list (map total_horas ms),
       mes_orden = orden,
       IF = Fin (if sum_list (map total_horas ms) = 0 then 0
                 else sum_list (map total_lesiones ms) * k / sum_list (map total_horas ms)),
       IG = Fin (if sum_list (map total_horas ms) = 0 then 0
                 else sum_list (map dias_perdidos ms) * k / sum_list (map total_horas ms)),
       TR = Fin (if sum_list (map total_lesiones ms) = 0 then 0
                 else sum_list (map dias_perdidos ms) / sum_list (map total_lesiones ms)),
       tipo_fila = tp,
       constante_k = k \<rparr>"

text \<open>The rows that one quarter adds to the report.\<close>

definition bloque :: "fila list \<Rightarrow> nat \<times> string \<times> string list \<Rightarrow> fila list" where
  "bloque df_meses t =
     (case t of (n, nombre, meses) \<Rightarrow>
        (let ms = filter (\<lambda>r. isin (mes r) meses) df_meses
         in if ms = [] then [] else ms @ [resumen_cerrado ms nombre ''trimestre'' K_TRIMESTRAL (n * 3)]))"

text \<open>Month rows as \<open>_calcular_indices_meses\<close> leaves them: sorted by rank, each rank that of the month name.\<close>

definition bien_ordenado :: "fila list \<Rightarrow> bool" where
  "bien_ordenado df \<longleftrightarrow>
     sorted (map mes_orden df) \<and> (\<forall>r \<in> set df. mes_orden r = orden_de_mes (mes r) \<and> tipo_fila r = ''mes'')"

text \<open>The month rows of a table, after the column names are normalised.\<close>

definition meses_de :: "dataframe \<Rightarrow> fila list" where
  "meses_de df = map fila_mes (preparar_datos_base (normalizar_columnas_df df))"

text \<open>The report before the final sort.\<close>

definition reporte_de :: "fila list \<Rightarrow> fila list" where
  "reporte_de df_meses =
     concat (map (bloque df_meses) TRIMESTRES) @ [resumen_cerrado df_meses TOTAL_ANIO ''anual'' K_ANUAL 99]"






section \<open>The proactive engine in closed form\<close>

text \<open>The number held in a column of a row, 0 when the column is absent or holds no finite number.\<close>

definition valor :: "serie \<Rightarrow> string \<Rightarrow> real" where
  "valor r c = (case map_of r c of Some (Flt (Fin x)) \<Rightarrow> x | _ \<Rightarrow> 0)"

text \<open>A row whose required columns, the month apart, hold finite numbers.\<close>

definition numericas :: "serie \<Rightarrow> bool" where
  "numericas r \<longleftrightarrow> (\<forall>c \<in> set (tl COLUMNAS_REQUERIDAS_PRO). \<exists>x. map_of r c = Some (Flt (Fin x)))"


text \<open>The percentage, and the row that \<open>fila_completa\<close> returns, in closed form.\<close>

definition ratio :: "real \<Rightarrow> real \<Rightarrow> real" where
  "ratio e p = (if p = 0 then 0 else min (e / p * 100) 100)"

definition fila_cerrada :: "real \<Rightarrow> serie \<Rightarrow> serie" where
  "fila_cerrada m r =
     (let opas_e = valor r ''opas_real'' * valor r ''opas_personas_conf'';
          opas_p = valor r ''opas_prog'' * valor r ''opas_personas_prev'';
          dps_e = valor r ''dps_real'' * valor r ''dps_asistentes'';
          dps_p = valor r ''dps_plan'' * valor r ''dps_previstos'';
          iart = ratio (valor r ''nart_ejec'') (valor r ''nart_prog'');
          opas = ratio opas_e opas_p;
          idps = ratio dps_e dps_p;
          ids = ratio (valor r ''ds_eliminadas'') (valor r ''ds_detectadas'');
          ients = ratio (valor r ''ent_entrenados'') (valor r ''ent_programados'');
          iosea = ratio (valor r ''osea_cumplidos'') (valor r ''osea_aplicables'');
          icai = ratio (valor r ''cai_implement'') (valor r ''cai_propuestas'');
          ief = ratio (valor r ''ef_auditados'') (valor r ''ef_totales'');
          ig = (5 * iart + 3 * opas + 2 * idps + 3 * ids + 1 * ients + 4 * iosea + 4 * icai) / 22
      in asignar ''Estado'' (Str (if ig \<ge> m then ''CUMPLE'' else ''NO CUMPLE''))
        (asignar ''Meta'' (Flt (Fin m))
        (asignar ''IG_TOTAL'' (Flt (Fin ig))
        (asignar ''IEF'' (Flt (Fin ief))
        (asignar ''ICAI'' (Flt (Fin icai))
        (asignar ''IOSEA'' (Flt (Fin iosea))
        (asignar ''IENTS'' (Flt (Fin ients))
        (asignar ''IDS'' (Flt (Fin ids))
        (asignar ''IDPS'' (Flt (Fin idps))
        (asignar ''OPAS'' (Flt (Fin opas))
        (asignar ''IART'' (Flt (Fin iart))
        (asignar ''dps_programado'' (Flt (Fin dps_p))
        (asignar ''dps_efectivo'' (Flt (Fin dps_e))
        (asignar ''opas_programado'' (Flt (Fin opas_p))
        (asignar ''opas_efectivo'' (Flt (Fin opas_e)) r)))))))))))))))"


text \<open>
  What holds of the result while \<open>validar\<close> runs: it is valid exactly when no error is
  recorded, and it holds no table and no summary.
\<close>

definition sin_tabla :: "ValidationResult \<Rightarrow> bool" where
  "sin_tabla res \<longleftrightarrow>
     (es_valido res \<longleftrightarrow> errores res = []) \<and> df_limpio res = None \<and> resumen res = []"

section \<open>Properties of safe division\<close>


lemma safe_divide_Fin:
  "safe_divide (Flt (Fin a)) (Flt (Fin b)) = Inr (Fin (if b = 0 then 0 else a / b))"
  by (simp add: safe_divide_def)






section \<open>The reactive engine in closed form\<close>

lemma indices_fila_eq: "indices_fila r = Inr (fila_mes r)"
  by (simp add: indices_fila_def fila_mes_def safe_divide_Fin)

lemma calcular_indices_meses_eq: "calcular_indices_meses rs = Inr (map fila_mes rs)"
  by (induction rs) (simp_all add: indices_fila_eq)

lemma crear_fila_resumen_eq:
  "crear_fila_resumen ms nombre tp k orden = Inr (resumen_cerrado ms nombre tp k orden)"
  by (simp add: crear_fila_resumen_def resumen_cerrado_def safe_divide_Fin Let_def)

lemma filas_trimestres_eq:
  "filas_trimestres ts df acc = Inr (acc @ concat (map (bloque df) ts))"
proof (induction ts arbitrary: acc)
  case Nil
  show ?case by simp
next
  case (Cons t ts)
  obtain n nombre meses where t: "t = (n, nombre, meses)" by (cases t) auto
  show ?case
    by (simp add: t Cons.IH crear_fila_resumen_eq bloque_def Let_def)
qed

lemma insertar_resumenes_eq:
  "insertar_resumenes df =
     Inr (sort_key mes_orden
            (concat (map (bloque df) TRIMESTRES) @ [resumen_cerrado df TOTAL_ANIO ''anual'' K_ANUAL 99]))"
  by (simp add: insertar_resumenes_def filas_trimestres_eq crear_fila_resumen_eq)

lemma orden_trimestre:
  assumes "(n, nombre, meses) \<in> set TRIMESTRES" and "isin c meses"
  shows "3 * (n - 1) \<le> orden_de_mes c \<and> orden_de_mes c < 3 * n"
proof (cases c)
  case (Txt x)
  with assms show ?thesis
    by (auto simp add: TRIMESTRES_def MESES_ORDEN_def)
qed (use assms in simp_all)

lemma bloque_bounds:
  assumes "bien_ordenado df" and "(n, nombre, meses) \<in> set TRIMESTRES"
    and "r \<in> set (bloque df (n, nombre, meses))"
  shows "3 * (n - 1) \<le> mes_orden r \<and> mes_orden r \<le> 3 * n"
proof -
  let ?ms = "filter (\<lambda>r. isin (mes r) meses) df"
  from assms(3) consider "r \<in> set ?ms" | "r = resumen_cerrado ?ms nombre ''trimestre'' K_TRIMESTRAL (n * 3)"
    by (auto simp add: bloque_def Let_def split: if_splits)
  then show ?thesis
  proof cases
    case 1
    then have "isin (mes r) meses" and "mes_orden r = orden_de_mes (mes r)"
      using assms(1) by (auto simp add: bien_ordenado_def)
    with orden_trimestre [OF assms(2)] show ?thesis by force
  next
    case 2
    then show ?thesis by (simp add: resumen_cerrado_def)
  qed
qed

lemma bloque_sorted:
  assumes "bien_ordenado df" and "(n, nombre, meses) \<in> set TRIMESTRES"
  shows "sorted (map mes_orden (bloque df (n, nombre, meses)))"
proof -
  let ?ms = "filter (\<lambda>r. isin (mes r) meses) df"
  have s: "sorted (map mes_orden ?ms)"
    using assms(1) by (simp add: bien_ordenado_def sorted_filter)
  have b: "\<forall>r \<in> set ?ms. mes_orden r \<le> n * 3"
  proof
    fix r assume r: "r \<in> set ?ms"
    then have "isin (mes r) meses" and "mes_orden r = orden_de_mes (mes r)"
      using assms(1) by (auto simp add: bien_ordenado_def)
    with orden_trimestre [OF assms(2)] show "mes_orden r \<le> n * 3" by force
  qed
  show ?thesis
    using s b by (simp add: bloque_def Let_def sorted_append resumen_cerrado_def)
qed

lemma reporte_sorted:
  assumes "bien_ordenado df"
  shows "sorted (map mes_orden
           (concat (map (bloque df) TRIMESTRES) @ [resumen_cerrado df TOTAL_ANIO ''anual'' K_ANUAL 99]))"
proof -
  let ?t1 = "(1::nat, ''PRIMER TRIMESTRE'', [''enero'', ''febrero'', ''marzo''])"
  let ?t2 = "(2::nat, ''SEGUNDO TRIMESTRE'', [''abril'', ''mayo'', ''junio''])"
  let ?t3 = "(3::nat, ''TERCER TRIMESTRE'', [''julio'', ''agosto'', ''septiembre''])"
  let ?t4 = "(4::nat, ''CUARTO TRIMESTRE'', [''octubre'', ''noviembre'', ''diciembre''])"
  have m: "?t1 \<in> set TRIMESTRES" "?t2 \<in> set TRIMESTRES" "?t3 \<in> set TRIMESTRES"
    "?t4 \<in> set TRIMESTRES"
    by (simp_all add: TRIMESTRES_def)
  note s = m [THEN bloque_sorted [OF assms]]
  have b1: "\<forall>r \<in> set (bloque df ?t1). mes_orden r \<le> 3"
    using bloque_bounds [OF assms m(1)] by auto
  have b2: "\<forall>r \<in> set (bloque df ?t2). 3 \<le> mes_orden r \<and> mes_orden r \<le> 6"
    using bloque_bounds [OF assms m(2)] by auto
  have b3: "\<forall>r \<in> set (bloque df ?t3). 6 \<le> mes_orden r \<and> mes_orden r \<le> 9"
    using bloque_bounds [OF assms m(3)] by auto
  have b4: "\<forall>r \<in> set (bloque df ?t4). 9 \<le> mes_orden r \<and> mes_orden r \<le> 12"
    using bloque_bounds [OF assms m(4)] by auto
  have y: "mes_orden (resumen_cerrado df TOTAL_ANIO ''anual'' K_ANUAL 99) = 99"
    by (simp add: resumen_cerrado_def)
  show ?thesis
    using s b1 b2 b3 b4 y
    by (simp add: TRIMESTRES_def sorted_append) force
qed

lemma fila_mes_sel [simp]:
  "mes (fila_mes r) = mes r" "mes_orden (fila_mes r) = mes_orden r"
  "tipo_fila (fila_mes r) = ''mes''" "constante_k (fila_mes r) = K_MENSUAL"
  "total_lesiones (fila_mes r) = total_lesiones r" "total_horas (fila_mes r) = total_horas r"
  "dias_perdidos (fila_mes r) = dias_perdidos r" "acc_baja (fila_mes r) = acc_baja r"
  "acc_sin_baja (fila_mes r) = acc_sin_baja r"
  "enf_ocupacionales (fila_mes r) = enf_ocupacionales r"
  "num_trabajadores (fila_mes r) = num_trabajadores r"
  by (simp_all add: fila_mes_def fila_base.defs fila.defs)

lemma preparar_fila_orden:
  "mes_orden (preparar_fila cols row) = orden_de_mes (mes (preparar_fila cols row))"
  by (simp add: preparar_fila_def Let_def)

lemma meses_de_bien_ordenado: "bien_ordenado (meses_de df)"
proof -
  have "sorted (map mes_orden (meses_de df))"
    by (simp add: meses_de_def preparar_datos_base_def comp_def)
  moreover have "\<forall>r \<in> set (meses_de df). mes_orden r = orden_de_mes (mes r) \<and> tipo_fila r = ''mes''"
    by (auto simp add: meses_de_def preparar_datos_base_def preparar_fila_orden)
  ultimately show ?thesis by (simp add: bien_ordenado_def)
qed

lemma procesar_error:
  assumes "faltantes COLUMNAS_REQUERIDAS (map normalizar_nombre (columns df)) \<noteq> []"
  shows "procesar self df =
           (Inl (ValueError (''Columnas requeridas faltantes: '' @
                   join '', '' (faltantes COLUMNAS_REQUERIDAS (map normalizar_nombre (columns df))) @
                   [CHR 0x0A] @ ''Columnas encontradas: '' @
                   join '', '' (map normalizar_nombre (columns df)))), self)"
  using assms
  by (simp add: procesar_def validar_columnas_def normalizar_columnas_df_def Let_def)

lemma procesar_ok:
  assumes "faltantes COLUMNAS_REQUERIDAS (map normalizar_nombre (columns df)) = []"
  shows "fst (procesar self df) =
           Inr (reporte_de (meses_de df), filter (\<lambda>r. tipo_fila r = ''mes'') (reporte_de (meses_de df)))"
proof -
  have v: "validar_columnas (normalizar_columnas_df df) = Inr ()"
    using assms by (simp add: validar_columnas_def normalizar_columnas_df_def Let_def)
  have s: "sort_key mes_orden (reporte_de (meses_de df)) = reporte_de (meses_de df)"
    unfolding reporte_de_def
    by (rule sort_key_id_if_sorted) (rule reporte_sorted [OF meses_de_bien_ordenado])
  show ?thesis
    using s
    by (simp add: procesar_def v calcular_indices_meses_eq insertar_resumenes_eq Let_def
        meses_de_def [symmetric] reporte_de_def [symmetric])
qed





































lemma map_of_asignar: "map_of (asignar k v r) = (map_of r)(k \<mapsto> v)"
  by (induction r) (auto simp add: fun_eq_iff)

lemma row_get_asignar:
  "row_get (asignar k v r) k' d = (if k' = k then v else row_get r k' d)"
  by (simp add: row_get_def map_of_asignar)

lemma row_get_num:
  assumes "numericas r" and "c \<in> set (tl COLUMNAS_REQUERIDAS_PRO)"
  shows "row_get r c d = Flt (Fin (valor r c))"
proof -
  from assms obtain x where "map_of r c = Some (Flt (Fin x))"
    by (auto simp add: numericas_def)
  then show ?thesis by (simp add: row_get_def valor_def)
qed

lemma calcular_indicador_Fin:
  "calcular_indicador (Flt (Fin e)) (Flt (Fin p)) = Inr (Fin (ratio e p))"
  by (simp add: calcular_indicador_def ratio_def fl_min_def min_def)

lemma compuestas_num:
  assumes "numericas r"
  shows "calcular_columnas_compuestas r =
     asignar ''dps_programado'' (Flt (Fin (valor r ''dps_plan'' * valor r ''dps_previstos'')))
       (asignar ''dps_efectivo'' (Flt (Fin (valor r ''dps_real'' * valor r ''dps_asistentes'')))
       (asignar ''opas_programado'' (Flt (Fin (valor r ''opas_prog'' * valor r ''opas_personas_prev'')))
       (asignar ''opas_efectivo'' (Flt (Fin (valor r ''opas_real'' * valor r ''opas_personas_conf''))) r)))"
  by (simp add: calcular_columnas_compuestas_def Let_def row_get_asignar
      row_get_num [OF assms] COLUMNAS_REQUERIDAS_PRO_def)

lemma fila_completa_num:
  assumes "numericas r"
  shows "fila_completa m r = Inr (fila_cerrada m r)"
  by (simp add: fila_completa_def compuestas_num [OF assms] INDICADORES_def
      calcular_ig_total_def row_get_asignar row_get_num [OF assms] COLUMNAS_REQUERIDAS_PRO_def
      calcular_indicador_Fin fila_cerrada_def Let_def)



lemma map_of_map_key:
  "map_of (map (\<lambda>c. (c, f c)) cols) k = (if k \<in> set cols then Some (f k) else None)"
  by (induction cols) auto

lemma requeridas_no_mes:
  assumes "c \<in> set (tl COLUMNAS_REQUERIDAS_PRO)"
  shows "c \<noteq> ''mes'' \<and> c \<noteq> ''mes_orden''"
  using assms by (auto simp add: COLUMNAS_REQUERIDAS_PRO_def)

lemma preparar_fila_numericas:
  assumes "set COLUMNAS_REQUERIDAS_PRO \<subseteq> set cols"
  shows "numericas (preparar_fila_pro cols row)"
  unfolding numericas_def
proof
  fix c assume c: "c \<in> set (tl COLUMNAS_REQUERIDAS_PRO)"
  then have "c \<in> set COLUMNAS_REQUERIDAS_PRO" by (simp add: COLUMNAS_REQUERIDAS_PRO_def)
  with assms have "c \<in> set cols" by auto
  with requeridas_no_mes [OF c]
  show "\<exists>x. map_of (preparar_fila_pro cols row) c = Some (Flt (Fin x))"
    by (simp add: preparar_fila_pro_def Let_def map_of_asignar map_of_map_key)
qed

lemma faltantes_vacio: "faltantes req cols = [] \<longleftrightarrow> set req \<subseteq> set cols"
  by (auto simp add: faltantes_def filter_empty_conv)

lemma filas_completas_num:
  assumes "\<forall>r \<in> set rs. numericas r"
  shows "filas_completas m rs = Inr (map (fila_cerrada m) rs)"
  using assms by (induction rs) (simp_all add: fila_completa_num)

lemma procesar_pro_error:
  assumes "faltantes COLUMNAS_REQUERIDAS_PRO (map normalizar_nombre (columns df)) \<noteq> []"
  shows "procesar_pro self df =
           (Inl (ValueError (''Columnas requeridas faltantes: '' @
              join '', '' (faltantes COLUMNAS_REQUERIDAS_PRO (map normalizar_nombre (columns df))))),
            self)"
  using assms
  by (simp add: procesar_pro_def validar_columnas_pro_def normalizar_columnas_df_def Let_def)

lemma procesar_pro_ok:
  assumes "faltantes COLUMNAS_REQUERIDAS_PRO (map normalizar_nombre (columns df)) = []"
  shows "fst (procesar_pro self df) =
           Inr (map (fila_cerrada (meta self)) (preparar_datos (normalizar_columnas_df df)))"
proof -
  have v: "validar_columnas_pro (normalizar_columnas_df df) = Inr ()"
    using assms by (simp add: validar_columnas_pro_def normalizar_columnas_df_def Let_def)
  have "\<forall>r \<in> set (preparar_datos (normalizar_columnas_df df)). numericas r"
    using assms preparar_fila_numericas
    by (auto simp add: preparar_datos_def normalizar_columnas_df_def faltantes_vacio)
  from filas_completas_num [OF this] show ?thesis
    by (simp add: procesar_pro_def v Let_def)
qed

lemma procesar_pro_cases:
  assumes "fst (procesar_pro self df) = Inr resultado" and "r \<in> set resultado"
  shows "\<exists>r0. numericas r0 \<and> r = fila_cerrada (meta self) r0"
proof (cases "faltantes COLUMNAS_REQUERIDAS_PRO (map normalizar_nombre (columns df)) = []")
  case True
  have n: "\<forall>r \<in> set (preparar_datos (normalizar_columnas_df df)). numericas r"
    using True preparar_fila_numericas
    by (auto simp add: preparar_datos_def normalizar_columnas_df_def faltantes_vacio)
  from procesar_pro_ok [OF True, of self] assms n show ?thesis by auto
next
  case False
  from procesar_pro_error [OF False, of self] assms show ?thesis by simp
qed


lemma fila_cerrada_calculadas:
  "map_of (fila_cerrada m r0) ''opas_efectivo'' =
     Some (Flt (Fin (valor r0 ''opas_real'' * valor r0 ''opas_personas_conf'')))"
  "map_of (fila_cerrada m r0) ''opas_programado'' =
     Some (Flt (Fin (valor r0 ''opas_prog'' * valor r0 ''opas_personas_prev'')))"
  "map_of (fila_cerrada m r0) ''dps_efectivo'' =
     Some (Flt (Fin (valor r0 ''dps_real'' * valor r0 ''dps_asistentes'')))"
  "map_of (fila_cerrada m r0) ''dps_programado'' =
     Some (Flt (Fin (valor r0 ''dps_plan'' * valor r0 ''dps_previstos'')))"
  "map_of (fila_cerrada m r0) ''IART'' =
     Some (Flt (Fin (ratio (valor r0 ''nart_ejec'') (valor r0 ''nart_prog''))))"
  "map_of (fila_cerrada m r0) ''OPAS'' =
     Some (Flt (Fin (ratio (valor r0 ''opas_real'' * valor r0 ''opas_personas_conf'')
                           (valor r0 ''opas_prog'' * valor r0 ''opas_personas_prev''))))"
  "map_of (fila_cerrada m r0) ''IDPS'' =
     Some (Flt (Fin (ratio (valor r0 ''dps_real'' * valor r0 ''dps_asistentes'')
                           (valor r0 ''dps_plan'' * valor r0 ''dps_previstos''))))"
  "map_of (fila_cerrada m r0) ''IDS'' =
     Some (Flt (Fin (ratio (valor r0 ''ds_eliminadas'') (valor r0 ''ds_detectadas''))))"
  "map_of (fila_cerrada m r0) ''IENTS'' =
     Some (Flt (Fin (ratio (valor r0 ''ent_entrenados'') (valor r0 ''ent_programados''))))"
  "map_of (fila_cerrada m r0) ''IOSEA'' =
     Some (Flt (Fin (ratio (valor r0 ''osea_cumplidos'') (valor r0 ''osea_aplicables''))))"
  "map_of (fila_cerrada m r0) ''ICAI'' =
     Some (Flt (Fin (ratio (valor r0 ''cai_implement'') (valor r0 ''cai_propuestas''))))"
  "map_of (fila_cerrada m r0) ''IEF'' =
     Some (Flt (Fin (ratio (valor r0 ''ef_auditados'') (valor r0 ''ef_totales''))))"
  by (simp_all add: fila_cerrada_def Let_def map_of_asignar)






lemma row_get_ponderado:
  assumes "\<forall>v. map_of row k = Some v \<longrightarrow> (\<exists>x. v = Flt (Fin x))"
  shows "row_get row k (Flt (Fin 0)) = Flt (Fin (valor row k))"
proof (cases "map_of row k")
  case None
  then show ?thesis by (simp add: row_get_def valor_def)
next
  case (Some v)
  with assms obtain x where "v = Flt (Fin x)" by auto
  with Some show ?thesis by (simp add: row_get_def valor_def)
qed

lemma valor_de: "map_of r k = Some (Flt (Fin x)) \<Longrightarrow> valor r k = x"
  by (simp add: valor_def)

lemma calcular_ig_total_num:
  assumes "\<forall>k \<in> set [''IART'', ''OPAS'', ''IDPS'', ''IDS'', ''IENTS'', ''IOSEA'', ''ICAI''].
             \<forall>v. map_of row k = Some v \<longrightarrow> (\<exists>x. v = Flt (Fin x))"
  shows "calcular_ig_total row =
           Inr (Fin ((5 * valor row ''IART'' + 3 * valor row ''OPAS'' + 2 * valor row ''IDPS'' +
                      3 * valor row ''IDS'' + 1 * valor row ''IENTS'' + 4 * valor row ''IOSEA'' +
                      4 * valor row ''ICAI'') / 22))"
proof -
  have g: "row_get row ''IART'' (Flt (Fin 0)) = Flt (Fin (valor row ''IART''))"
    "row_get row ''OPAS'' (Flt (Fin 0)) = Flt (Fin (valor row ''OPAS''))"
    "row_get row ''IDPS'' (Flt (Fin 0)) = Flt (Fin (valor row ''IDPS''))"
    "row_get row ''IDS'' (Flt (Fin 0)) = Flt (Fin (valor row ''IDS''))"
    "row_get row ''IENTS'' (Flt (Fin 0)) = Flt (Fin (valor row ''IENTS''))"
    "row_get row ''IOSEA'' (Flt (Fin 0)) = Flt (Fin (valor row ''IOSEA''))"
    "row_get row ''ICAI'' (Flt (Fin 0)) = Flt (Fin (valor row ''ICAI''))"
    using assms by (simp_all add: row_get_ponderado)
  show ?thesis
    by (simp add: calcular_ig_total_def INDICADORES_def g)
qed

lemma suma_ponderada_cong:
  assumes "\<forall>c \<in> set cs. peso c > 0 \<longrightarrow>
             row_get row' (codigo c) (Flt (Fin 0)) = row_get row (codigo c) (Flt (Fin 0))"
  shows "suma_ponderada cs row' acc = suma_ponderada cs row acc"
  using assms
proof (induction cs arbitrary: acc)
  case Nil
  show ?case by simp
next
  case (Cons c cs)
  obtain s p where acc: "acc = (s, p)" by (cases acc) auto
  from Cons.prems have ih: "\<And>acc. suma_ponderada cs row' acc = suma_ponderada cs row acc"
    by (intro Cons.IH) simp
  from Cons.prems have
    "peso c > 0 \<Longrightarrow> row_get row' (codigo c) (Flt (Fin 0)) = row_get row (codigo c) (Flt (Fin 0))"
    by simp
  then show ?case by (auto simp add: acc ih split: pyval.splits)
qed

lemma suma_ponderada_sin_IEF:
  "suma_ponderada INDICADORES (asignar ''IEF'' v row) acc = suma_ponderada INDICADORES row acc"
  by (rule suma_ponderada_cong) (simp add: INDICADORES_def row_get_asignar)

lemma sso_calcular_ig_total_Fin:
  "sso_calcular_ig_total (Fin a) (Fin b) (Fin c) (Fin d) (Fin e) (Fin f) (Fin g) =
     Inr (Fin ((5 * a + 3 * b + 2 * c + 3 * d + 1 * e + 4 * f + 4 * g) / 22))"
  by (simp add: sso_calcular_ig_total_def peso_de_def PESOS_def SUMA_PESOS_def)

text \<open>
  Claim C3. The composite IG_TOTAL of a row is the sum of 5 IART, 3 OPAS, 2 IDPS, 3 IDS,
  1 IENTS, 4 IOSEA and 4 ICAI divided by 22, where an indicator that the row lacks counts
  as 0 and leaves the divisor at 22; IEF has no part in it. This holds of
  \<open>_calcular_ig_total\<close> on any row whose weighted indicators are finite numbers, of
  every row that \<open>procesar\<close> returns, and of \<open>SSOCalculator.calcular_ig_total\<close>.
\<close>

theorem ig_total_divisor_fijo:
  "((\<forall>k \<in> set [''IART'', ''OPAS'', ''IDPS'', ''IDS'', ''IENTS'', ''IOSEA'', ''ICAI''].
       \<forall>v. map_of row k = Some v \<longrightarrow> (\<exists>x. v = Flt (Fin x))) \<longrightarrow>
     calcular_ig_total row =
       Inr (Fin ((5 * valor row ''IART'' + 3 * valor row ''OPAS'' + 2 * valor row ''IDPS'' +
                  3 * valor row ''IDS'' + 1 * valor row ''IENTS'' + 4 * valor row ''IOSEA'' +
                  4 * valor row ''ICAI'') / 22))) \<and>
   calcular_ig_total (asignar ''IEF'' v row) = calcular_ig_total row \<and>
   (fst (procesar_pro self df) = Inr resultado \<and> r \<in> set resultado \<longrightarrow>
      map_of r ''IG_TOTAL'' =
        Some (Flt (Fin ((5 * valor r ''IART'' + 3 * valor r ''OPAS'' + 2 * valor r ''IDPS'' +
                         3 * valor r ''IDS'' + 1 * valor r ''IENTS'' + 4 * valor r ''IOSEA'' +
                         4 * valor r ''ICAI'') / 22)))) \<and>
   sso_calcular_ig_total (Fin a) (Fin b) (Fin c) (Fin d) (Fin e) (Fin f) (Fin g) =
     Inr (Fin ((5 * a + 3 * b + 2 * c + 3 * d + 1 * e + 4 * f + 4 * g) / 22)) \<and>
   SUMA_PESOS = 22"
proof -
  have p: "map_of r ''IG_TOTAL'' =
        Some (Flt (Fin ((5 * valor r ''IART'' + 3 * valor r ''OPAS'' + 2 * valor r ''IDPS'' +
                         3 * valor r ''IDS'' + 1 * valor r ''IENTS'' + 4 * valor r ''IOSEA'' +
                         4 * valor r ''ICAI'') / 22)))"
    if h: "fst (procesar_pro self df) = Inr resultado \<and> r \<in> set resultado"
  proof -
    from h procesar_pro_cases [of self df resultado r] obtain r0
      where r: "r = fila_cerrada (meta self) r0" by blast
    note c = fila_cerrada_calculadas [of "meta self" r0, THEN valor_de, folded r]
    have "map_of r ''IG_TOTAL'' =
        Some (Flt (Fin ((5 * ratio (valor r0 ''nart_ejec'') (valor r0 ''nart_prog'') +
           3 * ratio (valor r0 ''opas_real'' * valor r0 ''opas_personas_conf'')
                     (valor r0 ''opas_prog'' * valor r0 ''opas_personas_prev'') +
           2 * ratio (valor r0 ''dps_real'' * valor r0 ''dps_asistentes'')
                     (valor r0 ''dps_plan'' * valor r0 ''dps_previstos'') +
           3 * ratio (valor r0 ''ds_eliminadas'') (valor r0 ''ds_detectadas'') +
           1 * ratio (valor r0 ''ent_entrenados'') (valor r0 ''ent_programados'') +
           4 * ratio (valor r0 ''osea_cumplidos'') (valor r0 ''osea_aplicables'') +
           4 * ratio (valor r0 ''cai_implement'') (valor r0 ''cai_propuestas'')) / 22)))"
      unfolding r by (simp add: fila_cerrada_def Let_def map_of_asignar)
    then show ?thesis by (simp only: c)
  qed
  have "calcular_ig_total (asignar ''IEF'' v row) = calcular_ig_total row"
    by (simp add: calcular_ig_total_def suma_ponderada_sin_IEF)
  moreover have "SUMA_PESOS = 22" by (simp add: SUMA_PESOS_def PESOS_def)
  ultimately show ?thesis
    using calcular_ig_total_num [of row] p sso_calcular_ig_total_Fin [of a b c d e f g]
    by blast
qed

theorem ig_total_divisor_fijo_witness:
  "calcular_ig_total [(''IART'', Flt (Fin 100))] = Inr (Fin (500 / 22))"
proof -
  have "\<forall>k \<in> set [''IART'', ''OPAS'', ''IDPS'', ''IDS'', ''IENTS'', ''IOSEA'', ''ICAI''].
          \<forall>v. map_of [(''IART'', Flt (Fin 100))] k = Some v \<longrightarrow> (\<exists>x. v = Flt (Fin x))"
    by simp
  with ig_total_divisor_fijo [of "[(''IART'', Flt (Fin 100))]"]
  have "calcular_ig_total [(''IART'', Flt (Fin 100))] =
       Inr (Fin ((5 * valor [(''IART'', Flt (Fin 100))] ''IART'' +
                  3 * valor [(''IART'', Flt (Fin 100))] ''OPAS'' +
                  2 * valor [(''IART'', Flt (Fin 100))] ''IDPS'' +
                  3 * valor [(''IART'', Flt (Fin 100))] ''IDS'' +
                  1 * valor [(''IART'', Flt (Fin 100))] ''IENTS'' +
                  4 * valor [(''IART'', Flt (Fin 100))] ''IOSEA'' +
                  4 * valor [(''IART'', Flt (Fin 100))] ''ICAI'') / 22))"
    by blast
  then show ?thesis by (simp add: valor_def)
qed




lemma procesar_fst_indep: "fst (procesar s1 df) = fst (procesar s2 df)"
proof (cases "faltantes COLUMNAS_REQUERIDAS (map normalizar_nombre (columns df)) = []")
  case True
  then show ?thesis by (simp add: procesar_ok)
next
  case False
  then show ?thesis by (simp add: procesar_error)
qed

lemma procesar_pro_meta: "meta (snd (procesar_pro calc df)) = meta calc"
  by (simp add: procesar_pro_def Let_def split: sum.splits)

lemma procesar_pro_fst_indep:
  assumes "meta c1 = meta c2"
  shows "fst (procesar_pro c1 df) = fst (procesar_pro c2 df)"
proof (cases "faltantes COLUMNAS_REQUERIDAS_PRO (map normalizar_nombre (columns df)) = []")
  case True
  then show ?thesis by (simp add: procesar_pro_ok assms)
next
  case False
  then show ?thesis by (simp add: procesar_pro_error)
qed

text \<open>
  Claim C8. A second call of \<open>procesar\<close> on the same table, on the engine as the first
  call left it, returns what the first call returned, for the reactive and for the
  proactive engine.
\<close>

theorem procesar_idempotente:
  "fst (procesar (snd (procesar self df)) df) = fst (procesar self df) \<and>
   fst (procesar_pro (snd (procesar_pro calc df)) df) = fst (procesar_pro calc df)"
  using procesar_fst_indep [of "snd (procesar self df)" df self]
    procesar_pro_fst_indep [OF procesar_pro_meta [of calc df], of df]
  by simp

lemma sin_tabla_error: "sin_tabla res \<Longrightarrow> sin_tabla (agregar_error res c m f)"
  by (simp add: sin_tabla_def agregar_error_def)

lemma sin_tabla_warning: "sin_tabla res \<Longrightarrow> sin_tabla (agregar_warning res c m f)"
  by (simp add: sin_tabla_def agregar_warning_def)

lemma fold_snd_inv:
  assumes "\<And>x s. P (snd s) \<Longrightarrow> P (snd (f x s))" and "P (snd s)"
  shows "P (snd (fold f xs s))"
  using assms(2) by (induction xs arbitrary: s) (simp_all add: assms(1))

lemma fold_inv:
  assumes "\<And>x s. P s \<Longrightarrow> P (f x s)" and "P s"
  shows "P (fold f xs s)"
  using assms(2) by (induction xs arbitrary: s) (simp_all add: assms(1))

lemma paso_numerico_inv: "sin_tabla (snd s) \<Longrightarrow> sin_tabla (snd (paso_numerico col s))"
  by (cases s) (simp add: paso_numerico_def Let_def sin_tabla_warning)

lemma paso_negativos_inv: "sin_tabla r \<Longrightarrow> sin_tabla (paso_negativos df col r)"
  by (simp add: paso_negativos_def Let_def sin_tabla_error)

lemma paso_par_inv: "sin_tabla (snd s) \<Longrightarrow> sin_tabla (snd (paso_par ind s))"
  by (cases s) (simp add: paso_par_def Let_def sin_tabla_warning)

lemma validar_reactivo_inv:
  assumes "sin_tabla res"
  shows "sin_tabla (snd (validar_reactivo df res))"
proof -
  obtain df1 r1 where s: "fold paso_numerico COLS_NUMERICAS (df, res) = (df1, r1)"
    by (cases "fold paso_numerico COLS_NUMERICAS (df, res)") auto
  have "sin_tabla (snd (fold paso_numerico COLS_NUMERICAS (df, res)))"
    by (rule fold_snd_inv) (simp_all add: paso_numerico_inv assms)
  then have a: "sin_tabla r1" by (simp add: s)
  have b: "sin_tabla (fold (paso_negativos df1) COLS_NUMERICAS r1)"
    by (rule fold_inv) (simp_all add: paso_negativos_inv a)
  let ?faltan = "map (\<lambda>(col_std, desc). col_std @ '' ('' @ desc @ '')'')
              (filter (\<lambda>(col_std, desc). col_std \<notin> set (columns df)) COLUMNAS_REACTIVO)"
  show ?thesis
  proof (cases "?faltan \<noteq> []")
    case True
    have "validar_reactivo df res =
        (df, agregar_error res ''columnas''
          (''Columnas faltantes para an'' @ [CHR 0xC3, CHR 0xA1] @ ''lisis REACTIVO: '' @
           join '', '' ?faltan) None)"
      unfolding validar_reactivo_def Let_def by (rule if_P) (rule True)
    then show ?thesis by (simp only: snd_conv sin_tabla_error [OF assms])
  next
    case False
    let ?r2 = "fold (paso_negativos df1) COLS_NUMERICAS r1"
    let ?ceros = "length (filter (\<lambda>c. c = Num 0) (columna_de df1 ''horas_trabajadas''))"
    have "validar_reactivo df res =
        (case fold paso_numerico COLS_NUMERICAS (df, res) of (df1, r1) \<Rightarrow>
           (df1, if length (filter (\<lambda>c. c = Num 0) (columna_de df1 ''horas_trabajadas'')) > 0
                 then agregar_warning (fold (paso_negativos df1) COLS_NUMERICAS r1)
                        ''horas_trabajadas''
                        (str_nat (length (filter (\<lambda>c. c = Num 0)
                                     (columna_de df1 ''horas_trabajadas''))) @
                         '' meses con 0 horas trabajadas'') None
                 else fold (paso_negativos df1) COLS_NUMERICAS r1))"
      unfolding validar_reactivo_def Let_def by (rule if_not_P) (rule False)
    then have "snd (validar_reactivo df res) =
        (if ?ceros > 0
         then agregar_warning ?r2 ''horas_trabajadas''
                (str_nat ?ceros @ '' meses con 0 horas trabajadas'') None
         else ?r2)"
      by (simp only: s prod.case snd_conv)
    then show ?thesis using b by (simp add: sin_tabla_warning)
  qed
qed

lemma validar_proactivo_inv:
  assumes "sin_tabla res"
  shows "sin_tabla (snd (validar_proactivo df res))"
proof -
  have "sin_tabla (snd (fold paso_par [''iart'', ''opas'', ''idps'', ''ids'', ''ients'',
           ''iosea'', ''icai''] (df, res)))"
    by (rule fold_snd_inv) (simp_all add: paso_par_inv assms)
  then show ?thesis
    using assms by (simp add: validar_proactivo_def Let_def sin_tabla_error)
qed

lemma sin_tabla_inicial:
  "sin_tabla \<lparr>es_valido = True, errores = [], warnings = [], df_limpio = None, resumen = []\<rparr>"
  by (simp add: sin_tabla_def)

text \<open>
  Claim C10. Whatever the table and the kind of analysis, a result of \<open>validar\<close> that
  holds an error is not valid and carries neither a cleaned table nor a summary; the
  result is valid exactly when no error was recorded.
\<close>

theorem validar_sin_tabla_limpia:
  "(errores (validar t df_opt) \<noteq> [] \<longrightarrow>
      \<not> es_valido (validar t df_opt) \<and> df_limpio (validar t df_opt) = None \<and>
      resumen (validar t df_opt) = []) \<and>
   (es_valido (validar t df_opt) \<longleftrightarrow> errores (validar t df_opt) = [])"
proof -
  let ?r0 = "\<lparr>es_valido = True, errores = [], warnings = [], df_limpio = None, resumen = []\<rparr>"
  have k: "(errores r \<noteq> [] \<longrightarrow> \<not> es_valido r \<and> df_limpio r = None \<and> resumen r = []) \<and>
           (es_valido r \<longleftrightarrow> errores r = [])" if "sin_tabla r" for r
    using that by (auto simp add: sin_tabla_def)
  have fin: "(errores r' \<noteq> [] \<longrightarrow> \<not> es_valido r' \<and> df_limpio r' = None \<and> resumen r' = []) \<and>
           (es_valido r' \<longleftrightarrow> errores r' = [])"
    if "sin_tabla r" and "r' = (if es_valido r then r\<lparr>df_limpio := Some d, resumen := g\<rparr> else r)"
    for r r' d g
    using that by (auto simp add: sin_tabla_def)
  show ?thesis
  proof (cases df_opt)
    case None
    then show ?thesis
      using k [OF sin_tabla_error [OF sin_tabla_inicial]] by (simp add: validar_def)
  next
    case (Some df)
    show ?thesis
    proof (cases "filas df = [] \<or> columns df = []")
      case True
      with Some show ?thesis
        using k [OF sin_tabla_error [OF sin_tabla_inicial]] by (simp add: validar_def)
    next
      case False
      let ?dn = "normalizar_columnas t df"
      let ?p = "(case t of
                  REACTIVO \<Rightarrow> validar_reactivo ?dn ?r0
                | PROACTIVO \<Rightarrow> validar_proactivo ?dn ?r0
                | AMBOS \<Rightarrow>
                    (case validar_reactivo ?dn ?r0 of (d, r) \<Rightarrow>
                       if es_valido r then validar_proactivo d r else (d, r)))"
      have s: "sin_tabla (snd ?p)"
      proof (cases t)
        case REACTIVO
        then show ?thesis by (simp add: validar_reactivo_inv sin_tabla_inicial)
      next
        case PROACTIVO
        then show ?thesis by (simp add: validar_proactivo_inv sin_tabla_inicial)
      next
        case AMBOS
        have "sin_tabla (snd (validar_reactivo ?dn ?r0))"
          by (simp add: validar_reactivo_inv sin_tabla_inicial)
        then show ?thesis
          using AMBOS by (auto simp add: validar_proactivo_inv split: prod.splits)
      qed
      have v: "validar t df_opt =
                 (if es_valido (snd ?p)
                  then (snd ?p)\<lparr>df_limpio := Some (fst ?p), resumen := generar_resumen t (fst ?p)\<rparr>
                  else snd ?p)"
        using Some False by (simp add: validar_def Let_def split: prod.splits)
      from fin [OF s v] show ?thesis .
    qed
  qed
qed

lemma validar_vacio:
  "errores (validar REACTIVO (Some df_vacio)) =
     [\<lparr>columna = ''general'',
       mensaje = ''El DataFrame est'' @ [CHR 0xC3, CHR 0xA1] @ '' vac'' @ [CHR 0xC3, CHR 0xAD] @
                 ''o o es nulo'',
       tipo = ''error'', fila_num = None\<rparr>]"
  by (simp add: validar_def df_vacio_def agregar_error_def)

theorem validar_sin_tabla_limpia_witness:
  "errores (validar REACTIVO (Some df_vacio)) \<noteq> [] \<and>
   \<not> es_valido (validar REACTIVO (Some df_vacio)) \<and>
   df_limpio (validar REACTIVO (Some df_vacio)) = None \<and>
   resumen (validar REACTIVO (Some df_vacio)) = []"
proof -
  have "errores (validar REACTIVO (Some df_vacio)) \<noteq> []" by (simp add: validar_vacio)
  with validar_sin_tabla_limpia [of REACTIVO "Some df_vacio"] show ?thesis by blast
qed





end
